theory Spec2Isabelle
  imports Complex_Main "HOL-Library.Log_Nat"
begin

section \<open>Python values used by resource-gather.py\<close>

text \<open>
  A Python \<open>str\<close> is modelled as a \<open>string\<close> whose characters are the code points
  below 256. The exceptions that the modelled functions can raise are values of
  \<open>error\<close>; a function that can raise returns \<open>error + 'a\<close> with \<open>Inl\<close> for the raise.
\<close>

datatype error = ValueError | OverflowError | ZeroDivisionError

subsection \<open>Strings\<close>

text \<open>\<open>str.isspace\<close> on one character: the Unicode white space below 256.\<close>

definition py_isspace :: "char \<Rightarrow> bool" where
  "py_isspace c = (c \<in> set [CHR 0x09, CHR 0x0A, CHR 0x0B, CHR 0x0C, CHR 0x0D,
     CHR 0x1C, CHR 0x1D, CHR 0x1E, CHR 0x1F, CHR 0x20, CHR 0x85, CHR 0xA0])"

text \<open>The line boundaries of \<open>str.splitlines\<close> below 256 (\<open>\r\n\<close> counts once).\<close>

definition is_linebreak :: "char \<Rightarrow> bool" where
  "is_linebreak c = (c \<in> set [CHR 0x0A, CHR 0x0B, CHR 0x0C, CHR 0x0D,
     CHR 0x1C, CHR 0x1D, CHR 0x1E, CHR 0x85])"

definition is_digit :: "char \<Rightarrow> bool" where
  "is_digit c = (c \<in> set ''0123456789'')"

definition digit_val :: "char \<Rightarrow> int" where
  "digit_val c = of_char c - 48"

definition digit_char :: "int \<Rightarrow> char" where
  "digit_char d = char_of (48 + d)"

text \<open>\<open>s.strip()\<close>\<close>

definition strip :: "string \<Rightarrow> string" where
  "strip s = rev (dropWhile py_isspace (rev (dropWhile py_isspace s)))"

text \<open>\<open>s.split()\<close>: the maximal runs of characters that are not white space.\<close>

fun split_aux :: "string \<Rightarrow> string \<Rightarrow> string list" where
  "split_aux cur [] = (if cur = [] then [] else [cur])"
| "split_aux cur (c # cs) =
     (if py_isspace c then (if cur = [] then split_aux [] cs else cur # split_aux [] cs)
      else split_aux (cur @ [c]) cs)"

definition split :: "string \<Rightarrow> string list" where
  "split s = split_aux [] s"

text \<open>\<open>s.splitlines()\<close>\<close>

fun splitlines_aux :: "string \<Rightarrow> string \<Rightarrow> string list" where
  "splitlines_aux cur [] = (if cur = [] then [] else [cur])"
| "splitlines_aux cur [c] =
     (if is_linebreak c then [cur] else [cur @ [c]])"
| "splitlines_aux cur (c # d # ds) =
     (if c = CHR 0x0D \<and> d = CHR 0x0A then cur # splitlines_aux [] ds
      else if is_linebreak c then cur # splitlines_aux [] (d # ds)
      else splitlines_aux (cur @ [c]) (d # ds))"

definition splitlines :: "string \<Rightarrow> string list" where
  "splitlines s = splitlines_aux [] s"

text \<open>\<open>s.startswith(p)\<close>, \<open>p in s\<close> for strings, \<open>s.endswith('m')\<close>, \<open>s.lower()\<close>\<close>

fun startswith :: "string \<Rightarrow> string \<Rightarrow> bool" where
  "startswith s [] = True"
| "startswith [] (p # ps) = False"
| "startswith (c # cs) (p # ps) = (c = p \<and> startswith cs ps)"

fun contains :: "string \<Rightarrow> string \<Rightarrow> bool" where
  "contains p [] = (p = [])"
| "contains p (c # cs) = (startswith (c # cs) p \<or> contains p cs)"

definition endswith_m :: "string \<Rightarrow> bool" where
  "endswith_m s = (s \<noteq> [] \<and> last s = CHR ''m'')"

text \<open>
  \<open>s.lower()\<close>: below 256 the upper-case letters are \<open>A\<close> to \<open>Z\<close> and the code points
  \<open>0xC0\<close> to \<open>0xDE\<close> without \<open>0xD7\<close>, and each lower-case partner is 32 further.
\<close>

definition is_ascii_upper :: "char \<Rightarrow> bool" where
  "is_ascii_upper c = (c \<in> set ''ABCDEFGHIJKLMNOPQRSTUVWXYZ'')"

definition is_upper :: "char \<Rightarrow> bool" where
  "is_upper c = (is_ascii_upper c \<or>
     (0xC0 \<le> (of_char c :: nat) \<and> (of_char c :: nat) \<le> 0xDE \<and> c \<noteq> CHR 0xD7))"

definition lower :: "string \<Rightarrow> string" where
  "lower s = map (\<lambda>c. if is_upper c then char_of (of_char c + (32::nat)) else c) s"

text \<open>Lower case for the letters \<open>A\<close> to \<open>Z\<close> only, as C's case-insensitive match does.\<close>

definition ascii_lower :: "string \<Rightarrow> string" where
  "ascii_lower s = map (\<lambda>c. if is_ascii_upper c then char_of (of_char c + (32::nat)) else c) s"

text \<open>\<open>str(n)\<close> for an \<open>int\<close>: \<open>str_nat\<close> writes the digits of an \<open>n \<ge> 0\<close>.\<close>

function str_nat :: "int \<Rightarrow> string" where
  "str_nat n = (if n < 10 then [digit_char n] else str_nat (n div 10) @ [digit_char (n mod 10)])"
  by pat_completeness auto
termination
  by (relation "measure nat") auto

declare str_nat.simps [simp del]

definition str_int :: "int \<Rightarrow> string" where
  "str_int i = (if i < 0 then CHR ''-'' # str_nat (- i) else str_nat i)"

text \<open>The number written by a string of decimal digits.\<close>

definition digits_val :: "string \<Rightarrow> int" where
  "digits_val ds = foldl (\<lambda>a c. 10 * a + digit_val c) 0 ds"

subsection \<open>Floats\<close>

text \<open>
  A Python \<open>float\<close> is an IEEE 754 double: a finite value with a sign and a magnitude,
  an infinity with a sign, or a NaN. The magnitude of a finite float is kept as the
  rational number it denotes; every result of an operation is rounded to the nearest
  double, ties to even, by \<open>round_double\<close>.
\<close>

datatype pyfloat = Finite bool rat | Infinity bool | NaN

text \<open>Rounding to the nearest integer, ties to the even one.\<close>

definition round_half_even :: "rat \<Rightarrow> int" where
  "round_half_even q =
     (let f = \<lfloor>q\<rfloor>; r = q - of_int f
      in if r < 1 / 2 then f else if 1 / 2 < r then f + 1 else if even f then f else f + 1)"

text \<open>For \<open>q > 0\<close>, the \<open>e\<close> with \<open>2 ^ e \<le> q < 2 ^ (e + 1)\<close>.\<close>

definition floor_log2 :: "rat \<Rightarrow> int" where
  "floor_log2 q =
     (let (a, b) = quotient_of q; d = bitlen a - bitlen b
      in if 2 powi d \<le> q then d else d - 1)"

text \<open>
  The double nearest to the magnitude \<open>q \<ge> 0\<close>, with the sign \<open>s\<close>: 53 significant bits,
  the least exponent of a normal number is \<open>-1022\<close> (below it the spacing stays
  \<open>2 ^ -1074\<close>), and a result of \<open>2 ^ 1024\<close> or more is an infinity.
\<close>

definition double_limit :: rat where
  "double_limit = 2 ^ 1024"

definition round_double :: "bool \<Rightarrow> rat \<Rightarrow> pyfloat" where
  "round_double s q =
     (if q = 0 then Finite s 0
      else let e = max (floor_log2 q) (- 1022) - 52;
               v = of_int (round_half_even (q / 2 powi e)) * 2 powi e
           in if double_limit \<le> v then Infinity s else Finite s v)"

text \<open>
  For the proofs: the exponent of the spacing of the doubles around \<open>q\<close>, and the
  magnitudes that are doubles (at most 53 significant bits over an exponent of at
  least \<open>-1074\<close>, below the limit).
\<close>

definition ulp_exp :: "rat \<Rightarrow> int" where
  "ulp_exp q = max (floor_log2 q) (- 1022) - 52"

definition is_double :: "rat \<Rightarrow> bool" where
  "is_double v \<longleftrightarrow>
     (\<exists>m e. v = of_int m * 2 powi e \<and> 0 \<le> m \<and> m < 2 ^ 53 \<and> - 1074 \<le> e) \<and> v < double_limit"

subsection \<open>\<open>float(s)\<close>\<close>

text \<open>
  \<open>float\<close> of a string: an underscore may stand between two digits only; white space
  is stripped at both ends (the ASCII white space, and the two other white-space code
  points below 256, which CPython turns into blanks first); what remains is an optional
  sign followed by \<open>inf\<close>, \<open>infinity\<close> or \<open>nan\<close> in any case, or by a decimal
  number with an optional exponent. \<open>None\<close> stands for \<open>ValueError\<close>.
  The string is read into a \<open>float_literal\<close> first: a sign, the digits as a number and
  the power of ten that scales them, or an infinity, or a NaN. \<open>float_value\<close> is the
  float nearest to the literal.
\<close>

datatype float_literal = Decimal bool int int | InfLit bool | NanLit

definition float_isspace :: "char \<Rightarrow> bool" where
  "float_isspace c = (c \<in> set [CHR 0x09, CHR 0x0A, CHR 0x0B, CHR 0x0C, CHR 0x0D,
     CHR 0x20, CHR 0x85, CHR 0xA0])"

definition float_strip :: "string \<Rightarrow> string" where
  "float_strip s = rev (dropWhile float_isspace (rev (dropWhile float_isspace s)))"

fun underscores_ok :: "char \<Rightarrow> string \<Rightarrow> bool" where
  "underscores_ok prev [] = (prev \<noteq> CHR ''_'')"
| "underscores_ok prev (c # cs) =
     ((if c = CHR ''_'' then is_digit prev
       else if prev = CHR ''_'' then is_digit c else True)
      \<and> underscores_ok c cs)"

definition take_sign :: "string \<Rightarrow> bool \<times> string" where
  "take_sign s =
     (case s of [] \<Rightarrow> (False, [])
      | c # cs \<Rightarrow> if c = CHR ''-'' then (True, cs)
                 else if c = CHR ''+'' then (False, cs) else (False, s))"

definition parse_exponent :: "string \<Rightarrow> int option" where
  "parse_exponent r =
     (case r of [] \<Rightarrow> Some 0
      | c # cs \<Rightarrow>
          if c = CHR ''e'' \<or> c = CHR ''E'' then
            (let (neg, ds) = take_sign cs
             in if ds \<noteq> [] \<and> list_all is_digit ds
                then Some (if neg then - digits_val ds else digits_val ds)
                else None)
          else None)"

definition parse_decimal :: "bool \<Rightarrow> string \<Rightarrow> float_literal option" where
  "parse_decimal neg r =
     (let ip = takeWhile is_digit r; r1 = dropWhile is_digit r;
          has_dot = startswith r1 ''.'';
          fp = (if has_dot then takeWhile is_digit (tl r1) else []);
          r2 = (if has_dot then dropWhile is_digit (tl r1) else r1)
      in if ip = [] \<and> fp = [] then None
         else case parse_exponent r2 of
                None \<Rightarrow> None
              | Some ex \<Rightarrow>
                  Some (Decimal neg (digits_val (ip @ fp)) (ex - int (length fp))))"

definition parse_float :: "string \<Rightarrow> float_literal option" where
  "parse_float s =
     (let (neg, r) = take_sign s
      in if ascii_lower r = ''inf'' \<or> ascii_lower r = ''infinity'' then Some (InfLit neg)
         else if ascii_lower r = ''nan'' then Some NanLit
         else parse_decimal neg r)"

definition float_syntax :: "string \<Rightarrow> float_literal option" where
  "float_syntax s =
     (if underscores_ok (CHR 0x00) s
      then parse_float (float_strip (filter (\<lambda>c. c \<noteq> CHR ''_'') s))
      else None)"

fun float_value :: "float_literal \<Rightarrow> pyfloat" where
  "float_value (Decimal neg n ex) = round_double neg (of_int n * 10 powi ex)"
| "float_value (InfLit neg) = Infinity neg"
| "float_value NanLit = NaN"

definition py_float :: "string \<Rightarrow> pyfloat option" where
  "py_float s = map_option float_value (float_syntax s)"

subsection \<open>Float arithmetic, \<open>int\<close>, \<open>round\<close> and formatting\<close>

text \<open>\<open>x * y\<close> on floats\<close>

fun fmul :: "pyfloat \<Rightarrow> pyfloat \<Rightarrow> pyfloat" where
  "fmul (Finite s x) (Finite t y) = round_double (s \<noteq> t) (x * y)"
| "fmul (Finite s x) (Infinity t) = (if x = 0 then NaN else Infinity (s \<noteq> t))"
| "fmul (Infinity s) (Finite t y) = (if y = 0 then NaN else Infinity (s \<noteq> t))"
| "fmul (Infinity s) (Infinity t) = Infinity (s \<noteq> t)"
| "fmul NaN y = NaN"
| "fmul x NaN = NaN"

text \<open>\<open>x / y\<close> on floats: a zero divisor raises \<open>ZeroDivisionError\<close>.\<close>

fun fdiv :: "pyfloat \<Rightarrow> pyfloat \<Rightarrow> error + pyfloat" where
  "fdiv x (Finite t y) =
     (if y = 0 then Inl ZeroDivisionError
      else case x of
             Finite s q \<Rightarrow> Inr (round_double (s \<noteq> t) (q / y))
           | Infinity s \<Rightarrow> Inr (Infinity (s \<noteq> t))
           | NaN \<Rightarrow> Inr NaN)"
| "fdiv x (Infinity t) =
     (case x of Finite s q \<Rightarrow> Inr (Finite (s \<noteq> t) 0) | Infinity s \<Rightarrow> Inr NaN | NaN \<Rightarrow> Inr NaN)"
| "fdiv x NaN = Inr NaN"

text \<open>
  \<open>a / b\<close> on two \<open>int\<close>s: the quotient rounded to the nearest float;
  \<open>OverflowError\<close> when it is too large for a float.
\<close>

definition int_truediv :: "int \<Rightarrow> int \<Rightarrow> error + pyfloat" where
  "int_truediv a b =
     (if b = 0 then Inl ZeroDivisionError
      else case round_double ((a < 0) \<noteq> (b < 0)) (of_int \<bar>a\<bar> / of_int \<bar>b\<bar>) of
             Infinity s \<Rightarrow> Inl OverflowError
           | r \<Rightarrow> Inr r)"

text \<open>\<open>int(x)\<close> truncates towards zero; \<open>round(x)\<close> rounds to the nearest \<open>int\<close>, ties to even.\<close>

fun py_int :: "pyfloat \<Rightarrow> error + int" where
  "py_int (Finite s q) = Inr (if s then - \<lfloor>q\<rfloor> else \<lfloor>q\<rfloor>)"
| "py_int (Infinity s) = Inl OverflowError"
| "py_int NaN = Inl ValueError"

fun py_round :: "pyfloat \<Rightarrow> error + int" where
  "py_round (Finite s q) = Inr (if s then - round_half_even q else round_half_even q)"
| "py_round (Infinity s) = Inl OverflowError"
| "py_round NaN = Inl ValueError"

text \<open>
  The format \<open>f"{x:.pf}"\<close>: the value rounded to \<open>p\<close> decimals, ties to even, with all
  \<open>p\<close> decimals written and no point when \<open>p = 0\<close>.
\<close>

definition pad_zeros :: "nat \<Rightarrow> string \<Rightarrow> string" where
  "pad_zeros p ds = replicate (p - length ds) (CHR ''0'') @ ds"

fun fmt_fixed :: "nat \<Rightarrow> pyfloat \<Rightarrow> string" where
  "fmt_fixed p (Finite s q) =
     (let n = round_half_even (q * 10 ^ p)
      in (if s then ''-'' else '''') @ str_nat (n div 10 ^ p)
         @ (if p = 0 then '''' else ''.'' @ pad_zeros p (str_nat (n mod 10 ^ p))))"
| "fmt_fixed p (Infinity s) = (if s then ''-inf'' else ''inf'')"
| "fmt_fixed p NaN = ''nan''"

section \<open>Unit conversion and formatting\<close>

text \<open>
  \<open>run_command(f"numfmt --from=iec {value_with_unit}", ignore_errors=True)\<close> runs an
  external program. It is a parameter of the model: the function \<open>nf\<close> gives the
  stripped output for each argument, and \<open>None\<close> when \<open>run_command\<close> returns \<open>None\<close> or
  raises. \<open>no_numfmt\<close> is the environment in which the program is missing or fails, so
  that the manual parse decides.
\<close>

type_synonym numfmt = "string \<Rightarrow> string option"

definition no_numfmt :: numfmt where
  "no_numfmt = (\<lambda>v. None)"

text \<open>
  \<open>re.match(r"^([0-9.]+)([KMGTPEZY]i?B?)?$", s)\<close>: the two groups of the match
  (the second is \<open>None\<close> when the optional group takes no part), or \<open>None\<close> for no match.
  \<open>$\<close> matches at the end and before a line feed that ends the string.
\<close>

definition is_digit_or_dot :: "char \<Rightarrow> bool" where
  "is_digit_or_dot c = (is_digit c \<or> c = CHR ''.'')"

definition take_char :: "char \<Rightarrow> string \<Rightarrow> string \<times> string" where
  "take_char x s = (case s of [] \<Rightarrow> ([], []) | c # cs \<Rightarrow> if c = x then ([c], cs) else ([], s))"

definition take_unit :: "string \<Rightarrow> string option \<times> string" where
  "take_unit r =
     (case r of [] \<Rightarrow> (None, [])
      | c # cs \<Rightarrow>
          if c \<in> set ''KMGTPEZY'' then
            (let (i, cs1) = take_char (CHR ''i'') cs; (b, cs2) = take_char (CHR ''B'') cs1
             in (Some (c # i @ b), cs2))
          else (None, r))"

definition match_quantity :: "string \<Rightarrow> (string \<times> string option) option" where
  "match_quantity s =
     (let g1 = takeWhile is_digit_or_dot s; r = dropWhile is_digit_or_dot s
      in if g1 = [] then None
         else let (g2, r') = take_unit r
              in if r' = [] \<or> r' = [CHR 0x0A] then Some (g1, g2) else None)"

text \<open>The \<open>try\<close> block of \<open>convert_memory_to_bytes\<close>: any exception falls through.\<close>

definition numfmt_bytes :: "numfmt \<Rightarrow> string \<Rightarrow> int option" where
  "numfmt_bytes nf value_with_unit =
     (case nf value_with_unit of
        None \<Rightarrow> None
      | Some bytes_val \<Rightarrow>
          if bytes_val = [] then None
          else case py_float bytes_val of
                 None \<Rightarrow> None
               | Some f \<Rightarrow> (case py_int f of Inl e \<Rightarrow> None | Inr n \<Rightarrow> Some n))"

text \<open>The manual parsing of \<open>convert_memory_to_bytes\<close>.\<close>

definition manual_bytes :: "string \<Rightarrow> error + int" where
  "manual_bytes value_with_unit =
     (case match_quantity value_with_unit of
        None \<Rightarrow> Inr 0
      | Some (g1, g2) \<Rightarrow>
          (case py_float g1 of
             None \<Rightarrow> Inl ValueError
           | Some num \<Rightarrow>
               (let unit = lower (case g2 of None \<Rightarrow> '''' | Some u \<Rightarrow> u);
                    k = Finite False 1024
                in if unit \<in> set [''ki'', ''k'', ''kib''] then py_int (fmul num k)
                   else if unit \<in> set [''mi'', ''m'', ''mib''] then py_int (fmul (fmul num k) k)
                   else if unit \<in> set [''gi'', ''g'', ''gib'']
                     then py_int (fmul (fmul (fmul num k) k) k)
                   else if unit \<in> set [''ti'', ''t'', ''tib'']
                     then py_int (fmul (fmul (fmul (fmul num k) k) k) k)
                   else py_int num)))"

definition convert_memory_to_bytes :: "numfmt \<Rightarrow> string \<Rightarrow> error + int" where
  "convert_memory_to_bytes nf value_with_unit =
     (if value_with_unit = [] then Inr 0
      else case numfmt_bytes nf value_with_unit of
             Some n \<Rightarrow> Inr n
           | None \<Rightarrow> manual_bytes value_with_unit)"

definition convert_memory_to_gib :: "numfmt \<Rightarrow> string \<Rightarrow> error + string" where
  "convert_memory_to_gib nf value_with_unit =
     (case convert_memory_to_bytes nf value_with_unit of
        Inl e \<Rightarrow> Inl e
      | Inr mem_bytes \<Rightarrow>
          if mem_bytes \<le> 0 then Inr ''''
          else case int_truediv mem_bytes (1024 * 1024 * 1024) of
                 Inl e \<Rightarrow> Inl e
               | Inr gib \<Rightarrow> Inr (fmt_fixed 2 gib @ ''Gi''))"

definition convert_memory_to_mib :: "numfmt \<Rightarrow> string \<Rightarrow> error + string" where
  "convert_memory_to_mib nf value_with_unit =
     (case convert_memory_to_bytes nf value_with_unit of
        Inl e \<Rightarrow> Inl e
      | Inr mem_bytes \<Rightarrow>
          if mem_bytes \<le> 0 then Inr ''''
          else case int_truediv mem_bytes (1024 * 1024) of
                 Inl e \<Rightarrow> Inl e
               | Inr mib \<Rightarrow> Inr (fmt_fixed 0 mib @ ''Mi''))"

definition format_cpu_cores :: "string \<Rightarrow> error + string" where
  "format_cpu_cores v =
     (if v = [] then Inr ''''
      else if endswith_m v then
        (case py_float (butlast v) of
           None \<Rightarrow> Inl ValueError
         | Some millicores \<Rightarrow>
             (case fdiv millicores (Finite False 1000) of
                Inl e \<Rightarrow> Inl e
              | Inr cores \<Rightarrow> Inr (fmt_fixed 2 cores @ ''cores'')))
      else case py_float v of
             None \<Rightarrow> Inr v
           | Some f \<Rightarrow> Inr (fmt_fixed 2 f @ ''cores''))"

text \<open>
  In \<open>format_cpu_m\<close> the \<open>try\<close> block covers \<open>float\<close>, \<open>round\<close> and the format, and only
  \<open>ValueError\<close> is caught.
\<close>

definition format_cpu_m :: "string \<Rightarrow> error + string" where
  "format_cpu_m v =
     (if v = [] then Inr ''''
      else if endswith_m v then Inr v
      else case py_float v of
             None \<Rightarrow> Inr v
           | Some cores \<Rightarrow>
               (case py_round (fmul cores (Finite False 1000)) of
                  Inl e \<Rightarrow> (if e = ValueError then Inr v else Inl e)
                | Inr millicores \<Rightarrow> Inr (str_int millicores @ ''m'')))"

section \<open>Node details\<close>

text \<open>
  The part of \<open>get_node_details\<close> that reads the output of \<open>oc describe node\<close>. The four
  aggregate values that the loop over \<open>allocated_resources_block\<close> assigns are the fields
  of a record.
\<close>

record allocated =
  cpu_req :: string
  cpu_limit :: string
  mem_req_raw :: string
  mem_limit_raw :: string

definition allocated_init :: allocated where
  "allocated_init = \<lparr>cpu_req = '''', cpu_limit = '''', mem_req_raw = '''', mem_limit_raw = ''''\<rparr>"

text \<open>The first loop: the lines kept in \<open>allocated_resources_block\<close>, given \<open>in_block\<close>.\<close>

fun allocated_resources_block :: "bool \<Rightarrow> string list \<Rightarrow> string list" where
  "allocated_resources_block in_block [] = []"
| "allocated_resources_block in_block (line # rest) =
     (if contains ''Allocated resources:'' line then allocated_resources_block True rest
      else let in_block' = (if contains ''Events:'' line then False else in_block)
           in if in_block'
                 \<and> \<not> contains ''Total limits may exceed allocatable resources'' line
                 \<and> \<not> contains ''Resource           Requests         Limits'' line
              then strip line # allocated_resources_block in_block' rest
              else allocated_resources_block in_block' rest)"

text \<open>The body of the loop over \<open>allocated_resources_block\<close>.\<close>

definition allocated_step :: "allocated \<Rightarrow> string \<Rightarrow> allocated" where
  "allocated_step st line =
     (let parts = split line
      in if ''cpu'' \<in> set parts then
           st\<lparr>cpu_req := (if length parts > 1 then parts ! 1 else ''''),
              cpu_limit := (if length parts > 3 then parts ! 3 else '''')\<rparr>
         else if ''memory'' \<in> set parts then
           st\<lparr>mem_req_raw := (if length parts > 1 then parts ! 1 else ''''),
              mem_limit_raw := (if length parts > 3 then parts ! 3 else '''')\<rparr>
         else st)"

text \<open>
  \<open>re.search(r"\(([0-9]+)\s*in\s*total\)", s)\<close>: \<open>match_total\<close> tries the pattern at the
  start of \<open>s\<close> and gives group 1 and the whole match; the search takes the first
  position that matches.
\<close>

definition match_total :: "string \<Rightarrow> (string \<times> string) option" where
  "match_total s =
     (case s of [] \<Rightarrow> None
      | c # r \<Rightarrow>
          if c \<noteq> CHR ''('' then None
          else let ds = takeWhile is_digit r; r1 = dropWhile is_digit r;
                   w1 = takeWhile py_isspace r1; r2 = dropWhile py_isspace r1
               in if ds = [] \<or> \<not> startswith r2 ''in'' then None
                  else let r3 = drop 2 r2;
                           w2 = takeWhile py_isspace r3; r4 = dropWhile py_isspace r3
                       in if startswith r4 ''total)''
                          then Some (ds, ''('' @ ds @ w1 @ ''in'' @ w2 @ ''total)'')
                          else None)"

fun search_total :: "string \<Rightarrow> (string \<times> string) option" where
  "search_total [] = None"
| "search_total (c # cs) =
     (case match_total (c # cs) of Some m \<Rightarrow> Some m | None \<Rightarrow> search_total cs)"

text \<open>
  \<open>re.search(r"Non-terminated Pods:\s*\([0-9]+\s*in\s*total\)", s)\<close>: the text of the
  first match.
\<close>

definition match_pods :: "string \<Rightarrow> string option" where
  "match_pods s =
     (if startswith s ''Non-terminated Pods:'' then
        (let r = drop 20 s; w = takeWhile py_isspace r
         in case match_total (dropWhile py_isspace r) of
              None \<Rightarrow> None
            | Some (ds, m) \<Rightarrow> Some (''Non-terminated Pods:'' @ w @ m))
      else None)"

fun search_pods :: "string \<Rightarrow> string option" where
  "search_pods [] = None"
| "search_pods (c # cs) =
     (case match_pods (c # cs) of Some m \<Rightarrow> Some m | None \<Rightarrow> search_pods cs)"

definition pods_count :: "string \<Rightarrow> string" where
  "pods_count node_describe_output =
     (case search_pods node_describe_output of
        None \<Rightarrow> ''0''
      | Some num_pods_line \<Rightarrow>
          (case search_total num_pods_line of None \<Rightarrow> ''0'' | Some (ds, m) \<Rightarrow> ds))"

text \<open>
  The third loop: the lines kept in \<open>non_terminated_pods_block\<close>, given \<open>in_pods_block\<close>
  and \<open>lines_skipped\<close>.
\<close>

fun non_terminated_pods_block :: "bool \<Rightarrow> nat \<Rightarrow> string list \<Rightarrow> string list" where
  "non_terminated_pods_block in_pods_block lines_skipped [] = []"
| "non_terminated_pods_block in_pods_block lines_skipped (line # rest) =
     (if contains ''Non-terminated Pods:'' line then non_terminated_pods_block True 0 rest
      else let in_pods_block' =
                 (if contains ''Allocated resources:'' line then False else in_pods_block)
           in if in_pods_block' then
                (if lines_skipped < 2
                 then non_terminated_pods_block in_pods_block' (lines_skipped + 1) rest
                 else strip line # non_terminated_pods_block in_pods_block' lines_skipped rest)
              else non_terminated_pods_block in_pods_block' lines_skipped rest)"

text \<open>
  The loop over \<open>non_terminated_pods_block\<close>: the rows appended to \<open>pod_details_data\<close>.
  A formatter that raises ends the loop with its exception.
\<close>

fun pod_details :: "numfmt \<Rightarrow> string list \<Rightarrow> error + string list list" where
  "pod_details nf [] = Inr []"
| "pod_details nf (pod_line # rest) =
     (if pod_line = [] then pod_details nf rest
      else let parts = split pod_line
           in if length parts \<ge> 9 then
                (case format_cpu_m (parts ! 2) of Inl e \<Rightarrow> Inl e
                 | Inr p_cpu_req_formatted \<Rightarrow>
                (case format_cpu_m (parts ! 4) of Inl e \<Rightarrow> Inl e
                 | Inr p_cpu_limit_formatted \<Rightarrow>
                (case convert_memory_to_mib nf (parts ! 6) of Inl e \<Rightarrow> Inl e
                 | Inr p_mem_req_formatted \<Rightarrow>
                (case convert_memory_to_mib nf (parts ! 8) of Inl e \<Rightarrow> Inl e
                 | Inr p_mem_limit_formatted \<Rightarrow>
                (case pod_details nf rest of Inl e \<Rightarrow> Inl e
                 | Inr rows \<Rightarrow>
                     Inr ([parts ! 0, parts ! 1, p_cpu_req_formatted, p_cpu_limit_formatted,
                           p_mem_req_formatted, p_mem_limit_formatted] # rows))))))
              else pod_details nf rest)"

text \<open>
  Lines 248 to 317 of \<open>get_node_details\<close>: from \<open>node_describe_output\<close> (\<open>None\<close> when the
  command gave nothing) to the four raw aggregate values, \<open>num_pods\<close> and
  \<open>pod_details_data\<close>.
\<close>

definition scan_describe ::
    "numfmt \<Rightarrow> string option \<Rightarrow> error + (allocated \<times> string \<times> string list list)" where
  "scan_describe nf node_describe_output =
     (case node_describe_output of
        None \<Rightarrow> Inr (allocated_init, ''0'', [])
      | Some out \<Rightarrow>
          if out = [] then Inr (allocated_init, ''0'', [])
          else let ls = splitlines out;
                   a = foldl allocated_step allocated_init (allocated_resources_block False ls);
                   num_pods = pods_count out
               in case pod_details nf (non_terminated_pods_block False 0 ls) of
                    Inl e \<Rightarrow> Inl e
                  | Inr rows \<Rightarrow> Inr (a, num_pods, rows))"

text \<open>
  \<open>get_node_details\<close> from the point where the node's JSON has been read: the two
  capacity values of the JSON and the output of \<open>oc describe node\<close> give
  \<open>node_summary_data\<close> and \<open>pod_details_data\<close>.
\<close>

definition get_node_details ::
    "numfmt \<Rightarrow> string \<Rightarrow> string \<Rightarrow> string option \<Rightarrow> error + (string list \<times> string list list)" where
  "get_node_details nf cpu_capacity_raw mem_capacity_raw node_describe_output =
     (case convert_memory_to_gib nf mem_capacity_raw of Inl e \<Rightarrow> Inl e
      | Inr mem_capacity_formatted \<Rightarrow>
     (case format_cpu_cores cpu_capacity_raw of Inl e \<Rightarrow> Inl e
      | Inr cpu_capacity_formatted \<Rightarrow>
     (case scan_describe nf node_describe_output of Inl e \<Rightarrow> Inl e
      | Inr (a, num_pods, pod_details_data) \<Rightarrow>
     (case convert_memory_to_gib nf (mem_req_raw a) of Inl e \<Rightarrow> Inl e
      | Inr mem_req_formatted \<Rightarrow>
     (case convert_memory_to_gib nf (mem_limit_raw a) of Inl e \<Rightarrow> Inl e
      | Inr mem_limit_formatted \<Rightarrow>
     (case format_cpu_cores (cpu_req a) of Inl e \<Rightarrow> Inl e
      | Inr cpu_req_formatted \<Rightarrow>
     (case format_cpu_cores (cpu_limit a) of Inl e \<Rightarrow> Inl e
      | Inr cpu_limit_formatted \<Rightarrow>
         Inr ([cpu_req_formatted, cpu_limit_formatted, mem_req_formatted, mem_limit_formatted,
               cpu_capacity_formatted, mem_capacity_formatted, num_pods],
              pod_details_data))))))))"

section \<open>Notions used in the statements\<close>

text \<open>The text whose lines are \<open>ls\<close>, each ended by a line feed.\<close>

definition join_lines :: "string list \<Rightarrow> string" where
  "join_lines ls = concat (map (\<lambda>l. l @ [CHR 0x0A]) ls)"

definition no_linebreak :: "string \<Rightarrow> bool" where
  "no_linebreak l = list_all (\<lambda>c. \<not> is_linebreak c) l"

text \<open>
  The pod-detail row that the specification describes for the tokens \<open>parts\<close> of an
  accepted line: tokens 0 and 1, tokens 2 and 4 as millicores, tokens 6 and 8 as MiB.
\<close>

definition pod_row :: "numfmt \<Rightarrow> string list \<Rightarrow> error + string list" where
  "pod_row nf parts =
     (case format_cpu_m (parts ! 2) of Inl e \<Rightarrow> Inl e
      | Inr cpu_request_m \<Rightarrow>
     (case format_cpu_m (parts ! 4) of Inl e \<Rightarrow> Inl e
      | Inr cpu_limit_m \<Rightarrow>
     (case convert_memory_to_mib nf (parts ! 6) of Inl e \<Rightarrow> Inl e
      | Inr memory_request_mib \<Rightarrow>
     (case convert_memory_to_mib nf (parts ! 8) of Inl e \<Rightarrow> Inl e
      | Inr memory_limit_mib \<Rightarrow>
          Inr [parts ! 0, parts ! 1, cpu_request_m, cpu_limit_m, memory_request_mib, memory_limit_mib]))))"

text \<open>The results of a list of computations in order, or the first exception.\<close>

fun collect_rows :: "(error + 'a) list \<Rightarrow> error + 'a list" where
  "collect_rows [] = Inr []"
| "collect_rows (r # rs) =
     (case r of Inl e \<Rightarrow> Inl e
      | Inr x \<Rightarrow> (case collect_rows rs of Inl e \<Rightarrow> Inl e | Inr xs \<Rightarrow> Inr (x # xs)))"

text \<open>The lines of the allocated-resources block that assign the CPU pair, the memory pair.\<close>

definition sets_cpu :: "string \<Rightarrow> bool" where
  "sets_cpu line = (''cpu'' \<in> set (split line))"

definition sets_memory :: "string \<Rightarrow> bool" where
  "sets_memory line = (''cpu'' \<notin> set (split line) \<and> ''memory'' \<in> set (split line))"

section \<open>Properties of the float model\<close>

subsection \<open>Powers of two and the binade of a magnitude\<close>

lemma pow2_less_iff: "(2::rat) powi m < 2 powi n \<longleftrightarrow> m < n"
proof
  assume h: "(2::rat) powi m < 2 powi n"
  show "m < n"
  proof (rule ccontr)
    assume "\<not> m < n"
    then have "n \<le> m" by simp
    then have "(2::rat) powi n \<le> 2 powi m" by (intro power_int_increasing) auto
    with h show False by simp
  qed
next
  assume "m < n"
  then show "(2::rat) powi m < 2 powi n" by (intro power_int_strict_increasing) auto
qed

lemma pow2_le_iff: "(2::rat) powi m \<le> 2 powi n \<longleftrightarrow> m \<le> n"
  using pow2_less_iff[of n m] by (auto simp: not_less[symmetric])

lemma pow2_pos: "0 < (2::rat) powi n"
  by simp

lemma pow2_add: "(2::rat) powi (m + n) = 2 powi m * 2 powi n"
  by (simp add: power_int_add)

lemma pow2_diff: "(2::rat) powi (m - n) = 2 powi m / 2 powi n"
  by (simp add: power_int_diff)

lemma bitlen_pow2_bounds:
  assumes "0 < a"
  shows "(2::rat) powi (bitlen a - 1) \<le> of_int a" and "of_int a < (2::rat) powi (bitlen a)"
proof -
  have l1: "1 \<le> bitlen a"
    using assms bitlen_eq_zero_iff[of a] bitlen_nonneg[of a] by linarith
  have "(2::int) ^ nat (bitlen a - 1) \<le> a" using bitlen_bounds[OF assms] by simp
  then have "(of_int ((2::int) ^ nat (bitlen a - 1)) :: rat) \<le> of_int a"
    by (simp only: of_int_le_iff)
  then show "(2::rat) powi (bitlen a - 1) \<le> of_int a"
    using l1 by (simp add: power_int_nonneg_exp)
  have "a < (2::int) ^ nat (bitlen a)" using bitlen_bounds[OF assms] by simp
  then have "(of_int a :: rat) < of_int ((2::int) ^ nat (bitlen a))"
    by (simp only: of_int_less_iff)
  then show "of_int a < (2::rat) powi (bitlen a)"
    using l1 by (simp add: power_int_nonneg_exp)
qed

lemma floor_log2_bounds:
  assumes "0 < q"
  shows "2 powi (floor_log2 q) \<le> q" and "q < 2 powi (floor_log2 q + 1)"
proof -
  obtain a b where ab: "quotient_of q = (a, b)" by (cases "quotient_of q")
  have b: "0 < b" using ab quotient_of_denom_pos by blast
  have q: "q = of_int a / of_int b" using ab quotient_of_div by blast
  have a: "0 < a" using assms b q by (simp add: zero_less_divide_iff)
  define d where "d = bitlen a - bitlen b"
  note A = bitlen_pow2_bounds[OF a] and B = bitlen_pow2_bounds[OF b]
  have "q < 2 powi (bitlen a) / 2 powi (bitlen b - 1)"
    unfolding q using A B a b by (intro frac_less) auto
  also have "\<dots> = 2 powi (d + 1)"
    unfolding d_def by (simp add: pow2_diff[symmetric] algebra_simps)
  finally have up: "q < 2 powi (d + 1)" .
  have "(2::rat) powi (bitlen a - 1) / 2 powi (bitlen b) < q"
    unfolding q using A B a b by (intro frac_less2) auto
  also have "(2::rat) powi (bitlen a - 1) / 2 powi (bitlen b) = 2 powi (d - 1)"
    unfolding d_def by (simp add: pow2_diff[symmetric] algebra_simps)
  finally have lo: "2 powi (d - 1) < q" .
  have fl: "floor_log2 q = (if 2 powi d \<le> q then d else d - 1)"
    by (simp add: floor_log2_def ab d_def Let_def)
  show "2 powi (floor_log2 q) \<le> q" using lo by (simp add: fl)
  show "q < 2 powi (floor_log2 q + 1)" using up by (simp add: fl)
qed

lemma floor_log2_unique:
  assumes "2 powi e \<le> q" and "q < 2 powi (e + 1)"
  shows "floor_log2 q = e"
proof -
  have q: "0 < q" using assms(1) pow2_pos[of e] by linarith
  note F = floor_log2_bounds[OF q]
  have "(2::rat) powi e < 2 powi (floor_log2 q + 1)" using assms(1) F(2) by linarith
  then have 1: "e < floor_log2 q + 1" by (simp only: pow2_less_iff)
  have "(2::rat) powi (floor_log2 q) < 2 powi (e + 1)" using assms(2) F(1) by linarith
  then have 2: "floor_log2 q < e + 1" by (simp only: pow2_less_iff)
  from 1 2 show ?thesis by linarith
qed

lemma round_half_even_of_int: "round_half_even (of_int n) = n"
  by (simp add: round_half_even_def)

lemma round_half_even_bound: "\<bar>of_int (round_half_even x) - x\<bar> \<le> 1 / 2"
proof -
  have "of_int \<lfloor>x\<rfloor> \<le> x" "x < of_int \<lfloor>x\<rfloor> + 1" by linarith+
  then show ?thesis
    by (auto simp add: round_half_even_def Let_def)
qed

lemma round_half_even_mono_le: "x \<le> of_int n \<Longrightarrow> round_half_even x \<le> n"
proof -
  assume h: "x \<le> of_int n"
  have fl: "\<lfloor>x\<rfloor> \<le> n" using h by (simp add: floor_le_iff)
  show ?thesis
  proof (cases "\<lfloor>x\<rfloor> = n")
    case True
    then have "x = of_int n" using h by (metis floor_le_iff of_int_floor_le order_antisym)
    then show ?thesis by (simp add: round_half_even_of_int)
  next
    case False
    then have "\<lfloor>x\<rfloor> + 1 \<le> n" using fl by linarith
    then show ?thesis by (auto simp add: round_half_even_def Let_def)
  qed
qed

lemma round_half_even_mono_ge: "of_int n \<le> x \<Longrightarrow> n \<le> round_half_even x"
proof -
  assume h: "of_int n \<le> x"
  have fl: "n \<le> \<lfloor>x\<rfloor>" using h by (simp add: le_floor_iff)
  then show ?thesis by (auto simp add: round_half_even_def Let_def)
qed



lemma round_double_unfold:
  "q \<noteq> 0 \<Longrightarrow> round_double s q =
     (if double_limit \<le> of_int (round_half_even (q / 2 powi ulp_exp q)) * 2 powi ulp_exp q
      then Infinity s
      else Finite s (of_int (round_half_even (q / 2 powi ulp_exp q)) * 2 powi ulp_exp q))"
  by (simp add: round_double_def ulp_exp_def Let_def)

lemma ulp_exp_ge: "- 1074 \<le> ulp_exp q"
  by (simp add: ulp_exp_def)

lemma ulp_exp_upper:
  assumes "0 < q"
  shows "q < 2 powi (ulp_exp q + 53)"
proof -
  have "q < 2 powi (floor_log2 q + 1)" using floor_log2_bounds(2)[OF assms] .
  also have "\<dots> \<le> 2 powi (ulp_exp q + 53)"
    by (simp only: pow2_le_iff) (simp add: ulp_exp_def)
  finally show ?thesis .
qed

lemma ulp_exp_binade:
  assumes "2 powi (e + 52) \<le> q" and "q < 2 powi (e + 53)" and "- 1074 \<le> e"
  shows "ulp_exp q = e"
proof -
  have "floor_log2 q = e + 52"
    using assms(1,2) by (intro floor_log2_unique) (simp_all add: add.assoc)
  then show ?thesis using assms(3) by (simp add: ulp_exp_def)
qed

lemma ulp_exp_subnormal:
  assumes "0 < q" and "q < 2 powi (- 1022)"
  shows "ulp_exp q = - 1074"
proof -
  have "(2::rat) powi (floor_log2 q) < 2 powi (- 1022)"
    using floor_log2_bounds(1)[OF assms(1)] assms(2) by linarith
  then have "floor_log2 q < - 1022" by (simp only: pow2_less_iff)
  then show ?thesis by (simp add: ulp_exp_def)
qed

lemma scaled_less:
  assumes "0 < q"
  shows "q / 2 powi ulp_exp q < (2::rat) ^ 53"
proof -
  have "q < 2 powi (ulp_exp q + 53)" using ulp_exp_upper[OF assms] .
  also have "\<dots> = 2 powi ulp_exp q * 2 ^ 53" by (simp add: pow2_add)
  finally show ?thesis by (simp add: pos_divide_less_eq mult.commute)
qed

lemma double_limit_pos: "0 < double_limit"
  by (simp add: double_limit_def)


lemma round_double_exact_aux:
  assumes m: "0 < m" "m < 2 ^ 53" and e: "- 1074 \<le> e"
    and lt: "of_int m * 2 powi e < double_limit"
  shows "round_double s (of_int m * 2 powi e) = Finite s (of_int m * 2 powi e)"
proof -
  define q :: rat where "q = of_int m * 2 powi e"
  define u where "u = ulp_exp q"
  have q: "0 < q" using m by (simp add: q_def)
  have "(of_int m :: rat) < of_int (2 ^ 53)" using m(2) by (simp only: of_int_less_iff)
  then have "(of_int m :: rat) < 2 ^ 53" by simp
  then have "q < 2 ^ 53 * 2 powi e"
    unfolding q_def by (intro mult_strict_right_mono) simp_all
  also have "\<dots> = 2 powi (e + 53)" by (simp add: pow2_add)
  finally have "(2::rat) powi (floor_log2 q) < 2 powi (e + 53)"
    using floor_log2_bounds(1)[OF q] by linarith
  then have "floor_log2 q < e + 53" by (simp only: pow2_less_iff)
  then have le: "u \<le> e" using e by (simp add: ulp_exp_def u_def)
  define k where "k = nat (e - u)"
  have ek: "e = u + int k" using le by (simp add: k_def)
  have "q / 2 powi u = of_int m * 2 ^ k"
    unfolding q_def by (simp add: ek pow2_add)
  also have "\<dots> = of_int (m * 2 ^ k)" by simp
  finally have sc: "q / 2 powi u = of_int (m * 2 ^ k)" .
  have "of_int (round_half_even (q / 2 powi u)) * 2 powi u = q / 2 powi u * 2 powi u"
    by (simp only: sc round_half_even_of_int)
  also have "\<dots> = q" by simp
  finally have "of_int (round_half_even (q / 2 powi u)) * 2 powi u = q" .
  then have "round_double s q = Finite s q"
    using round_double_unfold[of q s] q lt by (simp add: q_def[symmetric] u_def[symmetric])
  then show ?thesis by (simp add: q_def)
qed

lemma round_double_exact:
  assumes "is_double v"
  shows "round_double s v = Finite s v"
proof -
  from assms obtain m e where v: "v = of_int m * 2 powi e" "0 \<le> m" "m < 2 ^ 53" "- 1074 \<le> e"
    and lt: "v < double_limit" unfolding is_double_def by blast
  show ?thesis
  proof (cases "m = 0")
    case True
    then show ?thesis by (simp add: v(1) round_double_def)
  next
    case False
    then have "0 < m" using v(2) by simp
    then show ?thesis using round_double_exact_aux[of m e s] v lt by simp
  qed
qed

lemma round_double_range:
  assumes "0 \<le> q" and "round_double s q = Finite t v"
  shows "t = s \<and> is_double v"
proof (cases "q = 0")
  case True
  then have "v = 0" "t = s" using assms(2) by (simp_all add: round_double_def)
  moreover have "is_double 0"
    unfolding is_double_def using double_limit_pos by (auto intro!: exI[of _ 0])
  ultimately show ?thesis by simp
next
  case False
  then have q: "0 < q" using assms(1) by simp
  define n where "n = round_half_even (q / 2 powi ulp_exp q)"
  have v: "v = of_int n * 2 powi ulp_exp q" and t: "t = s" and lt: "v < double_limit"
    using assms(2) round_double_unfold[OF False, of s]
    by (auto simp: n_def split: if_splits)
  have n0: "0 \<le> n"
    unfolding n_def using q by (intro round_half_even_mono_ge) simp
  have "q / 2 powi ulp_exp q \<le> of_int (2 ^ 53)"
    using scaled_less[OF q] by simp
  then have n53: "n \<le> 2 ^ 53" unfolding n_def by (rule round_half_even_mono_le)
  have "\<exists>m e. v = of_int m * 2 powi e \<and> 0 \<le> m \<and> m < 2 ^ 53 \<and> - 1074 \<le> e"
  proof (cases "n = 2 ^ 53")
    case True
    have 1: "v = of_int (2 ^ 52) * 2 powi (ulp_exp q + 1)"
      unfolding v True by (simp add: pow2_add)
    have 2: "- 1074 \<le> ulp_exp q + 1" using ulp_exp_ge[of q] by linarith
    have 3: "(0::int) \<le> 2 ^ 52" "(2::int) ^ 52 < 2 ^ 53" by simp_all
    show ?thesis using 1 2 3 by blast
  next
    case False
    then have "n < 2 ^ 53" using n53 by simp
    then show ?thesis using v n0 ulp_exp_ge[of q] by blast
  qed
  then show ?thesis using t lt by (simp add: is_double_def)
qed

lemma is_double_scale:
  assumes "is_double v" and "v * 2 ^ k < double_limit"
  shows "is_double (v * 2 ^ k)"
proof -
  from assms(1) obtain m e where v: "v = of_int m * 2 powi e" "0 \<le> m" "m < 2 ^ 53" "- 1074 \<le> e"
    unfolding is_double_def by blast
  have "v * 2 ^ k = of_int m * 2 powi (e + int k)" by (simp add: v(1) pow2_add)
  moreover have "- 1074 \<le> e + int k" using v(4) by simp
  ultimately show ?thesis using v(2,3) assms(2) unfolding is_double_def by blast
qed


lemma pow2_lt_limit: "k \<le> 1023 \<Longrightarrow> (2::rat) ^ k < double_limit"
  unfolding double_limit_def by (rule power_strict_increasing) simp_all

lemma is_double_int:
  assumes "0 \<le> n" and "n < 2 ^ 53"
  shows "is_double (of_int n)"
proof -
  have "(of_int n :: rat) < of_int (2 ^ 53)" using assms(2) by (simp only: of_int_less_iff)
  then have "(of_int n :: rat) < 2 ^ 53" by simp
  also have "\<dots> < double_limit" by (rule pow2_lt_limit) simp
  finally have "of_int n < double_limit" .
  then show ?thesis
    unfolding is_double_def using assms
    by (intro conjI exI[of _ n] exI[of _ "0::int"]) simp_all
qed

lemma is_double_dyadic:
  assumes "0 \<le> n" and "n < 2 ^ 53" and "k \<le> 1074"
  shows "is_double (of_int n / 2 ^ k)"
proof -
  have "(of_int n :: rat) < of_int (2 ^ 53)" using assms(2) by (simp only: of_int_less_iff)
  then have "(of_int n :: rat) < 2 ^ 53" by simp
  also have "\<dots> < double_limit" by (rule pow2_lt_limit) simp
  finally have "of_int n < double_limit" .
  moreover have "(of_int n :: rat) / 2 ^ k \<le> of_int n"
    using assms(1) by (simp add: divide_le_eq mult_le_cancel_left1)
  ultimately have lt: "of_int n / 2 ^ k < double_limit" by linarith
  have "(of_int n :: rat) / 2 ^ k = of_int n * 2 powi (- int k)"
    by (simp add: power_int_minus_divide)
  moreover have "- 1074 \<le> - int k" using assms(3) by simp
  ultimately show ?thesis unfolding is_double_def using assms(1,2) lt by blast
qed

subsection \<open>Evaluating float operations on exact values\<close>

lemma fmul_exact:
  "is_double (x * y) \<Longrightarrow> fmul (Finite s x) (Finite t y) = Finite (s \<noteq> t) (x * y)"
  by (simp add: round_double_exact)

lemma float_value_int:
  "0 \<le> n \<Longrightarrow> n < 2 ^ 53 \<Longrightarrow> float_value (Decimal s n 0) = Finite s (of_int n)"
  by (simp add: round_double_exact is_double_int)

lemma round_double_half: "round_double False (1 / 2) = Finite False (1 / 2)"
  using round_double_exact[OF is_double_dyadic[of 1 1]] by simp

lemma round_double_one: "round_double False 1 = Finite False 1"
  using round_double_exact[OF is_double_int[of 1]] by simp

lemma round_double_two: "round_double False 2 = Finite False 2"
  using round_double_exact[OF is_double_int[of 2]] by simp

lemma py_float_500: "py_float ''500'' = Some (Finite False 500)"
proof -
  have "float_syntax ''500'' = Some (Decimal False 500 0)" by code_simp
  then show ?thesis using float_value_int[of 500 False] by (simp add: py_float_def)
qed

lemma py_float_2: "py_float ''2'' = Some (Finite False 2)"
proof -
  have "float_syntax ''2'' = Some (Decimal False 2 0)" by code_simp
  then show ?thesis using float_value_int[of 2 False] by (simp add: py_float_def)
qed

lemma py_float_1: "py_float ''1'' = Some (Finite False 1)"
proof -
  have "float_syntax ''1'' = Some (Decimal False 1 0)" by code_simp
  then show ?thesis using float_value_int[of 1 False] by (simp add: py_float_def)
qed

lemma py_float_half: "py_float ''0.5'' = Some (Finite False (1 / 2))"
proof -
  have "float_syntax ''0.5'' = Some (Decimal False 5 (- 1))" by code_simp
  then show ?thesis by (simp add: py_float_def round_double_half)
qed

lemma py_float_1073741824: "py_float ''1073741824'' = Some (Finite False 1073741824)"
proof -
  have "float_syntax ''1073741824'' = Some (Decimal False 1073741824 0)" by code_simp
  then show ?thesis using float_value_int[of 1073741824 False] by (simp add: py_float_def)
qed

lemma py_float_2097152: "py_float ''2097152'' = Some (Finite False 2097152)"
proof -
  have "float_syntax ''2097152'' = Some (Decimal False 2097152 0)" by code_simp
  then show ?thesis using float_value_int[of 2097152 False] by (simp add: py_float_def)
qed

lemma manual_bytes_no_unit:
  assumes "match_quantity v = Some (g1, None)" and "py_float g1 = Some num"
  shows "manual_bytes v = py_int num"
  using assms by (simp add: manual_bytes_def lower_def)

lemma convert_memory_to_bytes_manual:
  "v \<noteq> [] \<Longrightarrow> convert_memory_to_bytes no_numfmt v = manual_bytes v"
  by (simp add: convert_memory_to_bytes_def numfmt_bytes_def no_numfmt_def)

section \<open>The examples of the specification\<close>

lemma cores_500m: "format_cpu_cores ''500m'' = Inr ''0.50cores''"
proof -
  have f: "fmt_fixed 2 (Finite False (1 / 2)) = ''0.50''" by code_simp
  show ?thesis
    by (simp add: format_cpu_cores_def endswith_m_def py_float_500 round_double_half f
        del: fmt_fixed.simps)
qed

lemma cores_2: "format_cpu_cores ''2'' = Inr ''2.00cores''"
proof -
  have f: "fmt_fixed 2 (Finite False 2) = ''2.00''" by code_simp
  show ?thesis
    by (simp add: format_cpu_cores_def endswith_m_def py_float_2 f del: fmt_fixed.simps)
qed

lemma millicores_half: "format_cpu_m ''0.5'' = Inr ''500m''"
proof -
  have m: "fmul (Finite False (1 / 2)) (Finite False 1000) = Finite False 500"
    using fmul_exact[of "1 / 2" 1000 False False] is_double_int[of 500] by simp
  have r: "py_round (Finite False 500) = Inr 500"
    using round_half_even_of_int[of 500] by simp
  have s: "str_int 500 = ''500''" by code_simp
  show ?thesis
    by (simp add: format_cpu_m_def endswith_m_def py_float_half m r s
        del: fmul.simps py_round.simps)
qed

lemma millicores_250m: "format_cpu_m ''250m'' = Inr ''250m''"
  by (simp add: format_cpu_m_def endswith_m_def)

lemma bytes_1Gi: "convert_memory_to_bytes no_numfmt ''1Gi'' = Inr 1073741824"
proof -
  have m: "match_quantity ''1Gi'' = Some (''1'', Some ''Gi'')" by code_simp
  have l: "lower ''Gi'' = ''gi''" by code_simp
  have k1: "fmul (Finite False 1) (Finite False 1024) = Finite False 1024"
    using fmul_exact[of 1 1024 False False] is_double_int[of 1024] by simp
  have k2: "fmul (Finite False 1024) (Finite False 1024) = Finite False 1048576"
    using fmul_exact[of 1024 1024 False False] is_double_int[of 1048576] by simp
  have k3: "fmul (Finite False 1048576) (Finite False 1024) = Finite False 1073741824"
    using fmul_exact[of 1048576 1024 False False] is_double_int[of 1073741824] by simp
  show ?thesis
    by (simp add: convert_memory_to_bytes_manual manual_bytes_def m l py_float_1 k1 k2 k3
        del: fmul.simps)
qed

lemma gib_1073741824: "convert_memory_to_gib no_numfmt ''1073741824'' = Inr ''1.00Gi''"
proof -
  have m: "match_quantity ''1073741824'' = Some (''1073741824'', None)" by code_simp
  have b: "convert_memory_to_bytes no_numfmt ''1073741824'' = Inr 1073741824"
    by (simp add: convert_memory_to_bytes_manual
        manual_bytes_no_unit[OF m py_float_1073741824])
  have f: "fmt_fixed 2 (Finite False 1) = ''1.00''" by code_simp
  show ?thesis
    by (simp add: convert_memory_to_gib_def b int_truediv_def round_double_one f
        del: fmt_fixed.simps)
qed

lemma mib_2097152: "convert_memory_to_mib no_numfmt ''2097152'' = Inr ''2Mi''"
proof -
  have m: "match_quantity ''2097152'' = Some (''2097152'', None)" by code_simp
  have b: "convert_memory_to_bytes no_numfmt ''2097152'' = Inr 2097152"
    by (simp add: convert_memory_to_bytes_manual
        manual_bytes_no_unit[OF m py_float_2097152])
  have f: "fmt_fixed 0 (Finite False 2) = ''2''" by code_simp
  show ?thesis
    by (simp add: convert_memory_to_mib_def b int_truediv_def round_double_two f
        del: fmt_fixed.simps)
qed

text \<open>
  C9: \<open>cpuToCores("500m") = "0.50cores"\<close>, \<open>cpuToCores("2") = "2.00cores"\<close>,
  \<open>cpuToMillicores("0.5") = "500m"\<close>, \<open>cpuToMillicores("250m") = "250m"\<close>,
  \<open>toBytes("1Gi") = 1073741824\<close>, \<open>toGiB("1073741824") = "1.00Gi"\<close> and
  \<open>toMiB("2097152") = "2Mi"\<close>, the memory conversions on the manual parse.
\<close>

theorem quantity_examples:
  "format_cpu_cores ''500m'' = Inr ''0.50cores''
   \<and> format_cpu_cores ''2'' = Inr ''2.00cores''
   \<and> format_cpu_m ''0.5'' = Inr ''500m''
   \<and> format_cpu_m ''250m'' = Inr ''250m''
   \<and> convert_memory_to_bytes no_numfmt ''1Gi'' = Inr 1073741824
   \<and> convert_memory_to_gib no_numfmt ''1073741824'' = Inr ''1.00Gi''
   \<and> convert_memory_to_mib no_numfmt ''2097152'' = Inr ''2Mi''"
  by (simp only: cores_500m cores_2 millicores_half millicores_250m bytes_1Gi
      gib_1073741824 mib_2097152 simp_thms)

section \<open>Malformed quantities\<close>

text \<open>
  C1: the manual parse of \<open>convert_memory_to_bytes\<close> raises on \<open>"1.2.3"\<close>: the pattern
  \<open>[0-9.]+\<close> admits the string, and \<open>float\<close> then raises \<open>ValueError\<close>, which nothing
  catches.
\<close>

theorem convert_memory_to_bytes_raises:
  "convert_memory_to_bytes no_numfmt ''1.2.3'' = Inl ValueError"
  by code_simp

text \<open>
  C2: \<open>format_cpu_cores\<close> raises on \<open>"abcm"\<close>: the branch for a value that ends in \<open>m\<close>
  calls \<open>float\<close> outside any \<open>try\<close>.
\<close>

theorem format_cpu_cores_raises:
  "format_cpu_cores ''abcm'' = Inl ValueError"
  by code_simp

section \<open>The scan of the node description\<close>

text \<open>
  C7: \<open>get_node_details\<close> raises on a description whose \<open>cpu\<close> line under
  \<open>Allocated resources:\<close> has the request \<open>abcm\<close>: the raw value reaches
  \<open>format_cpu_cores\<close>, which raises \<open>ValueError\<close>.
\<close>

theorem get_node_details_raises:
  "get_node_details no_numfmt '''' ''''
     (Some (''Allocated resources:'' @ [CHR 0x0A] @ ''  cpu   abcm (10%)   2 (50%)''))
   = Inl ValueError"
  by code_simp

text \<open>
  C10: a line of the allocated-resources block whose tokens include both \<open>cpu\<close> and
  \<open>memory\<close> sets the two CPU fields from its tokens 1 and 3 and leaves the two memory
  fields as they were.
\<close>

theorem allocated_step_cpu_shadows_memory:
  assumes "''cpu'' \<in> set (split line)" and "''memory'' \<in> set (split line)"
  shows "mem_req_raw (allocated_step st line) = mem_req_raw st
       \<and> mem_limit_raw (allocated_step st line) = mem_limit_raw st
       \<and> cpu_req (allocated_step st line)
           = (if length (split line) > 1 then split line ! 1 else '''')
       \<and> cpu_limit (allocated_step st line)
           = (if length (split line) > 3 then split line ! 3 else '''')"
  using assms by (simp add: allocated_step_def Let_def)

theorem allocated_step_cpu_shadows_memory_witness:
  "mem_req_raw (allocated_step
      \<lparr>cpu_req = ''1'', cpu_limit = ''2'', mem_req_raw = ''3Gi'', mem_limit_raw = ''4Gi''\<rparr>
      ''cpu memory 5 6'') = ''3Gi''
   \<and> mem_limit_raw (allocated_step
      \<lparr>cpu_req = ''1'', cpu_limit = ''2'', mem_req_raw = ''3Gi'', mem_limit_raw = ''4Gi''\<rparr>
      ''cpu memory 5 6'') = ''4Gi''
   \<and> cpu_req (allocated_step
      \<lparr>cpu_req = ''1'', cpu_limit = ''2'', mem_req_raw = ''3Gi'', mem_limit_raw = ''4Gi''\<rparr>
      ''cpu memory 5 6'') = ''memory''
   \<and> cpu_limit (allocated_step
      \<lparr>cpu_req = ''1'', cpu_limit = ''2'', mem_req_raw = ''3Gi'', mem_limit_raw = ''4Gi''\<rparr>
      ''cpu memory 5 6'') = ''6''"
proof -
  have s: "split ''cpu memory 5 6'' = [''cpu'', ''memory'', ''5'', ''6'']" by code_simp
  show ?thesis
    using allocated_step_cpu_shadows_memory[of "''cpu memory 5 6''"
        "\<lparr>cpu_req = ''1'', cpu_limit = ''2'', mem_req_raw = ''3Gi'', mem_limit_raw = ''4Gi''\<rparr>"]
    by (simp add: s)
qed

end
